theory Spec2Isabelle
  imports Main
begin

section \<open>JavaScript values as the client sees them\<close>

text \<open>
  A JSON document.  The members of an object are kept in the order in which the document
  lists them, repeated names included.  Numbers are only handed from a frame to a listener
  and never inspected, so their carrier is the type parameter.
\<close>

datatype 'n json =
    JNull
  | JBool bool
  | JNum 'n
  | JStr string
  | JArr "'n json list"
  | JObj "(string \<times> 'n json) list"

text \<open>A JavaScript value that is either \<open>undefined\<close> (\<open>None\<close>) or a JSON value.\<close>

type_synonym 'n jsval = "'n json option"

text \<open>What a call can throw, and how a synchronous call ends.\<close>

datatype exn =
    SyntaxError
  | TypeError
  | Error string
  | Thrown string
  | FetchError

datatype completion = Returned | Threw exn

subsection \<open>Decimal numerals\<close>

definition digit :: "nat \<Rightarrow> char" where
  "digit d = ''0123456789'' ! d"

fun dec :: "nat \<Rightarrow> string" where
  "dec n = (if n < 10 then [digit n] else dec (n div 10) @ [digit (n mod 10)])"

declare dec.simps [simp del]

definition is_digit :: "char \<Rightarrow> bool" where
  "is_digit c = (c \<in> set ''0123456789'')"

definition digit_val :: "char \<Rightarrow> nat" where
  "digit_val c = length (takeWhile (\<lambda>d. d \<noteq> c) ''0123456789'')"

definition dec_val :: "string \<Rightarrow> nat" where
  "dec_val s = foldl (\<lambda>n c. 10 * n + digit_val c) 0 s"

text \<open>
  An array index is the canonical decimal numeral of an integer below \<open>2^32 - 1\<close>:
  no sign, no leading zero.  Property names of this form are enumerated first.
\<close>

definition is_array_index :: "string \<Rightarrow> bool" where
  "is_array_index s =
     (s \<noteq> [] \<and> list_all is_digit s \<and> (if hd s = CHR ''0'' then s = ''0'' else True)
      \<and> dec_val s < 4294967295)"

subsection \<open>Own properties and their enumeration order\<close>

text \<open>
  The object that \<open>JSON.parse\<close> builds from a member list: a repeated name keeps the place
  of its first occurrence and the value of its last.  Its property names are enumerated
  (by \<open>for ... in\<close> and by \<open>Object.keys\<close>) with the array indices first, in ascending numeric
  order, and the other names after them in the order of their creation.
\<close>

definition first_seen :: "string list \<Rightarrow> string list" where
  "first_seen ks = rev (remdups (rev ks))"

definition own_keys :: "(string \<times> 'a) list \<Rightarrow> string list" where
  "own_keys ms =
     (let ks = first_seen (map fst ms)
      in sort_key dec_val (filter is_array_index ks)
         @ filter (\<lambda>k. \<not> is_array_index k) ks)"

definition member :: "(string \<times> 'a) list \<Rightarrow> string \<Rightarrow> 'a option" where
  "member ms k = map_of (rev ms) k"

definition indices :: "nat \<Rightarrow> string list" where
  "indices n = map dec [0..<n]"

text \<open>
  \<open>v[k]\<close> for a value \<open>v\<close> other than \<open>null\<close> and \<open>undefined\<close>, and a name \<open>k\<close> that is
  either one of the value's own enumerable names or a name no prototype defines
  (the handler reads \<open>id\<close>, \<open>data\<close>, \<open>messageType\<close>, \<open>pair\<close> and enumerated keys only).
\<close>

fun get :: "'n json \<Rightarrow> string \<Rightarrow> 'n jsval" where
  "get (JObj ms) k = member ms k"
| "get (JArr xs) k =
     (if is_array_index k \<and> dec_val k < length xs then Some (xs ! dec_val k) else None)"
| "get (JStr s) k =
     (if is_array_index k \<and> dec_val k < length s then Some (JStr [s ! dec_val k]) else None)"
| "get _ k = None"

definition index :: "'n jsval \<Rightarrow> string \<Rightarrow> 'n jsval" where
  "index v k = (case v of None \<Rightarrow> None | Some d \<Rightarrow> get d k)"

text \<open>\<open>k in v\<close> throws a TypeError unless \<open>v\<close> is an object (arrays are objects).\<close>

fun has_property :: "string \<Rightarrow> 'n json \<Rightarrow> bool option" where
  "has_property k (JObj ms) = Some (k \<in> set (map fst ms))"
| "has_property k (JArr xs) = Some (is_array_index k \<and> dec_val k < length xs)"
| "has_property k _ = None"

text \<open>The names \<open>for (const key in v)\<close> visits; none for a primitive, \<open>null\<close> or \<open>undefined\<close>.\<close>

fun enumerable_keys :: "'n json \<Rightarrow> string list" where
  "enumerable_keys (JObj ms) = own_keys ms"
| "enumerable_keys (JArr xs) = indices (length xs)"
| "enumerable_keys (JStr s) = indices (length s)"
| "enumerable_keys _ = []"

definition for_in_keys :: "'n jsval \<Rightarrow> string list" where
  "for_in_keys v = (case v of None \<Rightarrow> [] | Some d \<Rightarrow> enumerable_keys d)"

text \<open>\<open>Object.keys(v)\<close> throws a TypeError for \<open>null\<close> and \<open>undefined\<close>.\<close>

definition Object_keys :: "'n jsval \<Rightarrow> string list option" where
  "Object_keys v =
     (case v of None \<Rightarrow> None | Some JNull \<Rightarrow> None | Some d \<Rightarrow> Some (enumerable_keys d))"

section \<open>The streaming channel: the message listener of \<open>connect\<close>\<close>

text \<open>
  A frame as the socket library hands it over: its \<open>type\<close> and, for a text frame, its
  \<open>utf8Data\<close>.
\<close>

record IMessage =
  type :: string
  utf8Data :: "string option"

text \<open>
  What the listener does, in order: \<open>this.emit(name, args)\<close> and the \<open>console.warn\<close> of the
  two default branches, which prints \<open>msg.id || ''\<close>, \<open>msg.messageType\<close> and \<open>msg.data\<close>.
\<close>

datatype 'n signal =
    Emit string "'n jsval list"
  | Warn "'n jsval" "'n jsval" "'n jsval"

definition truthy :: "string option \<Rightarrow> bool" where
  "truthy s = (case s of None \<Rightarrow> False | Some t \<Rightarrow> t \<noteq> [])"

text \<open>The three \<open>for ... in\<close> statements, which raise one event per key of \<open>msg.data\<close>.\<close>

definition per_key :: "string \<Rightarrow> 'n jsval \<Rightarrow> 'n jsval \<Rightarrow> 'n signal list" where
  "per_key name i d = map (\<lambda>key. Emit name [i, Some (JStr key), index d key]) (for_in_keys d)"

text \<open>The \<open>switch\<close> for a frame with both \<open>id\<close> and \<open>data\<close>.\<close>

definition device_message :: "'n jsval \<Rightarrow> 'n jsval \<Rightarrow> 'n jsval \<Rightarrow> 'n signal list" where
  "device_message t i d =
     (if t = Some (JStr ''propertyStatus'') then per_key ''propertyChanged'' i d
      else if t = Some (JStr ''actionStatus'') then per_key ''actionTriggered'' i d
      else if t = Some (JStr ''event'') then per_key ''eventRaised'' i d
      else if t = Some (JStr ''connected'') then [Emit ''connectStateChanged'' [i, d]]
      else if t = Some (JStr ''thingModified'') then [Emit ''deviceModified'' [i, d]]
      else if t = Some (JStr ''thingAdded'') then [Emit ''deviceAdded'' [i, d]]
      else if t = Some (JStr ''thingRemoved'') then [Emit ''deviceRemoved'' [i, d]]
      else [Warn i t d])"

text \<open>The \<open>switch\<close> for a frame with \<open>data\<close> and no \<open>id\<close>.\<close>

definition gateway_message ::
  "'n jsval \<Rightarrow> 'n jsval \<Rightarrow> 'n jsval \<Rightarrow> 'n signal list \<times> completion" where
  "gateway_message t i d =
     (if t = Some (JStr ''actionStatus'') then
        (case Object_keys d of
           None \<Rightarrow> ([], Threw TypeError)
         | Some ks \<Rightarrow>
             if length ks = 1 \<and> ks ! 0 = ''pair''
             then ([Emit ''pair'' [index d ''pair'']], Returned)
             else ([], Returned))
      else ([Warn i t d], Returned))"

text \<open>
  The listener body after \<open>JSON.parse\<close> has returned \<open>msg\<close>.  Reading \<open>msg.id\<close> throws for
  \<open>null\<close>; the \<open>in\<close> tests throw for the other primitives, after \<open>message\<close> was emitted.
\<close>

definition dispatch :: "'n json \<Rightarrow> 'n signal list \<times> completion" where
  "dispatch msg =
     (if msg = JNull then ([], Threw TypeError)
      else
        let i = get msg ''id''; d = get msg ''data''; t = get msg ''messageType'';
            first = Emit ''message'' [i, d]
        in case (has_property ''id'' msg, has_property ''data'' msg) of
             (Some has_id, Some has_data) \<Rightarrow>
               if has_id \<and> has_data then (first # device_message t i d, Returned)
               else if has_data then
                 (first # fst (gateway_message t i d), snd (gateway_message t i d))
               else ([first], Returned)
           | _ \<Rightarrow> ([first], Threw TypeError))"

text \<open>
  The listener.  Its second argument is what \<open>JSON.parse(message.utf8Data)\<close> does on this
  frame: \<open>None\<close> when it throws a SyntaxError, the parsed document otherwise.
\<close>

definition on_message :: "IMessage \<Rightarrow> 'n json option \<Rightarrow> 'n signal list \<times> completion" where
  "on_message message parsed =
     (if type message = ''utf8'' \<and> truthy (utf8Data message) then
        (case parsed of
           None \<Rightarrow> ([], Threw SyntaxError)
         | Some msg \<Rightarrow> dispatch msg)
      else ([], Returned))"

text \<open>
  The socket library calls the listener once per frame, in arrival order.  \<open>deliver\<close> follows
  these calls up to the first exception that leaves the listener, which nothing in the
  client catches.
\<close>

fun deliver :: "(IMessage \<times> 'n json option) list \<Rightarrow> 'n signal list \<times> completion" where
  "deliver [] = ([], Returned)"
| "deliver ((message, parsed) # later) =
     (case on_message message parsed of
        (signals, Returned) \<Rightarrow> (signals @ fst (deliver later), snd (deliver later))
      | (signals, Threw e) \<Rightarrow> (signals, Threw e))"

section \<open>The client\<close>

text \<open>
  \<open>tls\<close> is the one option the constructor ever sets, \<open>rejectUnauthorized\<close>, in the agent
  of \<open>fetchOptions\<close> and in the \<open>tlsOptions\<close> of \<open>webSocketClientConfig\<close>; \<open>None\<close> is the
  empty object both start as.  The socket library's connection object is followed through
  its \<open>connected\<close> flag, which its \<open>close()\<close> clears.
\<close>

record tls =
  rejectUnauthorized :: bool

record WebSocketConnection =
  connected :: bool

record WebThingsClient =
  address :: string
  port :: nat
  token :: string
  protocol :: string
  webSocketProtocol :: string
  fetchOptions :: "tls option"
  webSocketClientConfig :: "tls option"
  connection :: "WebSocketConnection option"

definition new_client :: "string \<Rightarrow> nat \<Rightarrow> string \<Rightarrow> bool \<Rightarrow> bool \<Rightarrow> WebThingsClient" where
  "new_client a p t useHttps skipValidation =
     \<lparr>address = a, port = p, token = t,
      protocol = (if useHttps then ''https'' else ''http''),
      webSocketProtocol = (if useHttps then ''wss'' else ''ws''),
      fetchOptions = (if skipValidation then Some \<lparr>rejectUnauthorized = False\<rparr> else None),
      webSocketClientConfig =
        (if skipValidation then Some \<lparr>rejectUnauthorized = False\<rparr> else None),
      connection = None\<rparr>"

subsection \<open>Requests and responses\<close>

text \<open>
  The body handed to \<open>fetch\<close>: the template literal of the caller's value, or its
  \<open>JSON.stringify\<close>.  Both are kept as the value they are applied to.
\<close>

datatype 'n body_init =
    Template "'n jsval"
  | Stringify "'n jsval"

record 'n RequestInit =
  agent :: "tls option"
  http_method :: string
  headers :: "(string \<times> string) list"
  body :: "'n body_init option"

text \<open>
  A response: its status line, \<open>headers.get\<close>, and what \<open>response.json()\<close> gives
  (\<open>None\<close> when the body is not JSON and the call rejects).
\<close>

record 'n Response =
  status :: nat
  statusText :: string
  headers_get :: "string \<Rightarrow> string option"
  json_body :: "'n json option"

text \<open>How a \<open>fetch\<close> call ends: the request fails on the network, or a response arrives.\<close>

datatype 'n fetched =
    NetworkFailure
  | Responded "'n Response"

text \<open>How a promise settles.\<close>

datatype 'a settled =
    Fulfilled 'a
  | Rejected exn

text \<open>The network calls of the client, in the order it makes them.\<close>

datatype 'n call =
    Fetch string "'n RequestInit"
  | ReadJson
  | SocketConnect string "tls option"
  | SocketSend "'n json"
  | SocketClose

text \<open>The flags \<open>request\<close> reads from its \<open>args\<close>.\<close>

record args =
  nobody :: bool
  strbody :: bool
  expectnocontent :: bool

definition no_args :: args where
  "no_args = \<lparr>nobody = False, strbody = False, expectnocontent = False\<rparr>"

subsection \<open>The probe of \<open>local\<close>\<close>

text \<open>
  \<open>local\<close>.  The second argument is how its probe ends; the result is the address probed
  and how the returned promise settles.
\<close>

definition local :: "string \<Rightarrow> 'n fetched \<Rightarrow> string \<times> WebThingsClient settled" where
  "local tok probe =
     (let addr = ''localhost''; probed = ''http://'' @ addr @ '':'' @ dec 8080
      in case probe of
           NetworkFailure \<Rightarrow> (probed, Rejected FetchError)
         | Responded response \<Rightarrow>
             if truthy (headers_get response ''Location'')
             then (probed, Fulfilled (new_client addr 4443 tok True True))
             else (probed, Fulfilled (new_client addr 8080 tok False False)))"

subsection \<open>\<open>request\<close> and the four verbs\<close>

fun starts_with :: "string \<Rightarrow> string \<Rightarrow> bool" where
  "starts_with s [] = True"
| "starts_with [] (p # ps) = False"
| "starts_with (c # cs) (p # ps) = (c = p \<and> starts_with cs ps)"

fun indexOf :: "string \<Rightarrow> string \<Rightarrow> int" where
  "indexOf [] p = (if p = [] then 0 else - 1)"
| "indexOf (c # cs) p =
     (if starts_with (c # cs) p then 0
      else let i = indexOf cs p in if i < 0 then - 1 else i + 1)"

definition request_init ::
  "WebThingsClient \<Rightarrow> string \<Rightarrow> 'n jsval \<Rightarrow> args \<Rightarrow> 'n RequestInit" where
  "request_init this m b a =
     (let hs = [(''Accept'', ''application/json''),
                (''Authorization'', ''Bearer '' @ token this)];
          params = \<lparr>agent = fetchOptions this, http_method = m, headers = hs, body = None\<rparr>
      in if nobody a then params
         else params
           \<lparr>headers := hs @ [(''Content-Type'', ''application/json'')],
            body := Some (if strbody a then Template b else Stringify b)\<rparr>)"

definition request_url :: "WebThingsClient \<Rightarrow> string \<Rightarrow> string" where
  "request_url this path = protocol this @ ''://'' @ address this @ '':'' @ dec (port this) @ path"

definition status_message :: "'n Response \<Rightarrow> string" where
  "status_message response = dec (status response) @ '': '' @ statusText response"

definition content_type_message :: "'n Response \<Rightarrow> string" where
  "content_type_message response =
     ''Content-Type is '' @ [CHR 0x27]
       @ (case headers_get response ''Content-Type'' of None \<Rightarrow> ''null'' | Some s \<Rightarrow> s)
       @ [CHR 0x27] @ '' but expected '' @ [CHR 0x27] @ ''application/json'' @ [CHR 0x27]"

text \<open>
  \<open>request\<close>.  The last argument is how the \<open>fetch\<close> it issues ends.  The result is the
  list of network calls made and how the returned promise settles (\<open>Some JNull\<close> is
  \<open>null\<close>).
\<close>

definition request ::
  "WebThingsClient \<Rightarrow> string \<Rightarrow> string \<Rightarrow> 'n jsval \<Rightarrow> args \<Rightarrow> 'n fetched
     \<Rightarrow> 'n call list \<times> 'n jsval settled" where
  "request this m path b a fetched =
     (let sent = Fetch (request_url this path) (request_init this m b a)
      in case fetched of
           NetworkFailure \<Rightarrow> ([sent], Rejected FetchError)
         | Responded response \<Rightarrow>
             if status response < 200 \<or> status response \<ge> 300
             then ([sent], Rejected (Thrown (status_message response)))
             else
               let contentType =
                     (case headers_get response ''Content-Type'' of None \<Rightarrow> [] | Some s \<Rightarrow> s)
               in if indexOf contentType ''application/json'' < 0 then
                    (if expectnocontent a then ([sent], Fulfilled (Some JNull))
                     else ([sent], Rejected (Thrown (content_type_message response))))
                  else
                    (case json_body response of
                       None \<Rightarrow> ([sent, ReadJson], Rejected FetchError)
                     | Some v \<Rightarrow> ([sent, ReadJson], Fulfilled (Some v))))"

definition get_op ::
  "WebThingsClient \<Rightarrow> string \<Rightarrow> 'n fetched \<Rightarrow> 'n call list \<times> 'n jsval settled" where
  "get_op this path fetched =
     request this ''GET'' path None (no_args\<lparr>nobody := True\<rparr>) fetched"

definition put_op ::
  "WebThingsClient \<Rightarrow> string \<Rightarrow> 'n jsval \<Rightarrow> 'n fetched \<Rightarrow> 'n call list \<times> 'n jsval settled" where
  "put_op this path v fetched = request this ''PUT'' path v no_args fetched"

definition post_op ::
  "WebThingsClient \<Rightarrow> string \<Rightarrow> 'n jsval \<Rightarrow> 'n fetched \<Rightarrow> 'n call list \<times> 'n jsval settled" where
  "post_op this path v fetched = request this ''POST'' path v no_args fetched"

text \<open>
  \<open>delete\<close> calls \<open>request\<close> and neither awaits nor returns its promise: the promise the
  caller holds is fulfilled with \<open>undefined\<close>.  The third component is how the promise of
  \<open>request\<close>, which nobody holds, settles.
\<close>

definition delete_op ::
  "WebThingsClient \<Rightarrow> string \<Rightarrow> 'n fetched
     \<Rightarrow> 'n call list \<times> 'n jsval settled \<times> 'n jsval settled" where
  "delete_op this path fetched =
     (let r = request this ''DELETE'' path (Some (JStr []))
                (no_args\<lparr>strbody := True, expectnocontent := True\<rparr>) fetched
      in (fst r, Fulfilled None, snd r))"

subsection \<open>\<open>connect\<close>, \<open>disconnect\<close>, \<open>subscribeEvents\<close>\<close>

text \<open>How the socket client answers \<open>connect\<close>: with a connection, or with \<open>connectFailed\<close>.\<close>

datatype connect_event =
    OnConnect WebSocketConnection
  | OnConnectFailed exn

definition socket_url :: "WebThingsClient \<Rightarrow> nat option \<Rightarrow> string" where
  "socket_url this port_arg =
     (let p = (case port_arg of None \<Rightarrow> 8080 | Some q \<Rightarrow> q);
          socketUrl = webSocketProtocol this @ ''://'' @ address this @ '':'' @ dec p @ ''/things''
      in socketUrl @ ''?jwt='' @ token this)"

text \<open>\<open>connect(port = 8080)\<close>; \<open>None\<close> is the call without an argument.\<close>

definition connect ::
  "WebThingsClient \<Rightarrow> nat option \<Rightarrow> connect_event
     \<Rightarrow> WebThingsClient \<times> 'n call list \<times> unit settled" where
  "connect this port_arg answer =
     (let dial = SocketConnect (socket_url this port_arg) (webSocketClientConfig this)
      in case answer of
           OnConnect c \<Rightarrow> (this\<lparr>connection := Some c\<rparr>, [dial], Fulfilled ())
         | OnConnectFailed e \<Rightarrow> (this, [dial], Rejected e))"

definition close :: "WebSocketConnection \<Rightarrow> WebSocketConnection" where
  "close c = c\<lparr>connected := False\<rparr>"

definition disconnect :: "WebThingsClient \<Rightarrow> WebThingsClient \<times> 'n call list \<times> unit settled" where
  "disconnect this =
     (case connection this of
        None \<Rightarrow> (this, [], Rejected (Error ''Socket not connected!''))
      | Some c \<Rightarrow> (this\<lparr>connection := Some (close c)\<rparr>, [SocketClose], Fulfilled ()))"

text \<open>
  The classes \<open>Device\<close> and \<open>Event\<close> are not among the sources; \<open>subscribeEvents\<close> reads
  \<open>device.id()\<close> and the \<open>description\<close> of each event, which are all the model keeps of them.
  \<open>events\<close> lists the properties of the object in the order of their creation.
\<close>

record Device =
  device_id :: string

record 'n Event =
  description :: "'n json"

definition event_descriptions :: "(string \<times> 'n Event) list \<Rightarrow> (string \<times> 'n json) list" where
  "event_descriptions events =
     concat (map (\<lambda>eventName. case member events eventName of
                                 None \<Rightarrow> []
                               | Some e \<Rightarrow> [(eventName, description e)])
               (own_keys events))"

definition subscription :: "Device \<Rightarrow> (string \<times> 'n Event) list \<Rightarrow> 'n json" where
  "subscription device events =
     JObj [(''messageType'', JStr ''addEventSubscription''),
           (''id'', JStr (device_id device)),
           (''data'', JObj (event_descriptions events))]"

definition subscribeEvents ::
  "WebThingsClient \<Rightarrow> Device \<Rightarrow> (string \<times> 'n Event) list \<Rightarrow> 'n call list \<times> unit settled" where
  "subscribeEvents this device events =
     (case connection this of
        None \<Rightarrow> ([], Rejected (Error ''Socket not connected!''))
      | Some c \<Rightarrow> ([SocketSend (subscription device events)], Fulfilled ()))"

section \<open>Facts about the JavaScript layer\<close>

lemma first_seen_distinct: "distinct ks \<Longrightarrow> first_seen ks = ks"
  by (simp add: first_seen_def distinct_remdups_id)

lemma own_keys_as_listed:
  assumes "distinct (map fst ms)" and "list_all (\<lambda>k. \<not> is_array_index k) (map fst ms)"
  shows "own_keys ms = map fst ms"
proof -
  have "filter is_array_index (map fst ms) = []"
    using assms(2) by (simp add: filter_empty_conv list_all_iff)
  moreover have "filter (\<lambda>k. \<not> is_array_index k) (map fst ms) = map fst ms"
    using assms(2) by (simp add: list_all_iff)
  ultimately show ?thesis
    using assms(1) by (simp add: own_keys_def first_seen_distinct)
qed

lemma has_property_member: "(k \<in> fst ` set ms) = (member ms k \<noteq> None)"
  by (simp add: member_def map_of_eq_None_iff)

lemma Object_keys_Some:
  "Object_keys (Some d) = (if d = JNull then None else Some (enumerable_keys d))"
  by (cases d) (simp_all add: Object_keys_def)

lemma single_key: "(length ks = 1 \<and> ks ! 0 = k) = (ks = [k])"
  by (cases ks) auto

lemmas keys_eval =
  own_keys_def first_seen_def is_array_index_def is_digit_def dec_val_def digit_val_def
  member_def

section \<open>The listener, branch by branch\<close>

lemma on_message_text:
  assumes "type message = ''utf8''" and "utf8Data message = Some text" and "text \<noteq> []"
  shows "on_message message (Some msg) = dispatch msg"
  using assms by (simp add: on_message_def truthy_def)

lemma dispatch_device:
  assumes "member ms ''id'' = Some i" and "member ms ''data'' = Some d"
  shows "dispatch (JObj ms) =
           (Emit ''message'' [Some i, Some d]
              # device_message (member ms ''messageType'') (Some i) (Some d), Returned)"
  using assms by (simp add: dispatch_def has_property_member Let_def)

lemma dispatch_gateway:
  assumes "member ms ''id'' = None" and "member ms ''data'' = Some d"
  shows "dispatch (JObj ms) =
           (Emit ''message'' [None, Some d]
              # fst (gateway_message (member ms ''messageType'') None (Some d)),
            snd (gateway_message (member ms ''messageType'') None (Some d)))"
  using assms by (simp add: dispatch_def has_property_member Let_def)

lemma gateway_actionStatus:
  "d \<noteq> JNull \<Longrightarrow>
   gateway_message (Some (JStr ''actionStatus'')) i (Some d) =
     (if enumerable_keys d = [''pair''] then ([Emit ''pair'' [get d ''pair'']], Returned)
      else ([], Returned))"
  by (simp add: gateway_message_def Object_keys_Some single_key index_def del: One_nat_def)

lemma gateway_other:
  "t \<noteq> Some (JStr ''actionStatus'') \<Longrightarrow> gateway_message t i d = ([Warn i t d], Returned)"
  by (simp add: gateway_message_def)

lemmas listener_eval =
  on_message_def truthy_def dispatch_def device_message_def gateway_message_def per_key_def
  for_in_keys_def index_def Object_keys_def indices_def digit_def Let_def

text \<open>
  C1.  A text frame whose document has \<open>id\<close>, \<open>data\<close> and the messageType
  \<open>propertyStatus\<close> makes the listener emit \<open>message(id, data)\<close> first and then one
  \<open>propertyChanged(id, key, data[key])\<close> per key that \<open>for ... in\<close> enumerates on \<open>data\<close>,
  in that enumeration order, and return.  For an object the enumeration is \<open>own_keys\<close>:
  array indices ascending first, then the other names as first listed.  It is the order
  of the document when no name is repeated and none is an array index.
\<close>

theorem propertyStatus_events:
  assumes "type message = ''utf8''" and "utf8Data message = Some text" and "text \<noteq> []"
    and "member ms ''id'' = Some i"
    and "member ms ''data'' = Some d"
    and "member ms ''messageType'' = Some (JStr ''propertyStatus'')"
  shows "on_message message (Some (JObj ms)) =
           (Emit ''message'' [Some i, Some d]
              # map (\<lambda>key. Emit ''propertyChanged'' [Some i, Some (JStr key), get d key])
                  (enumerable_keys d),
            Returned)
         \<and> (\<forall>ds. d = JObj ds \<and> distinct (map fst ds)
                   \<and> list_all (\<lambda>k. \<not> is_array_index k) (map fst ds)
               \<longrightarrow> enumerable_keys d = map fst ds)"
  using assms
  by (simp add: on_message_text dispatch_device device_message_def per_key_def
      for_in_keys_def index_def own_keys_as_listed)

text \<open>The frame of the specification's example, and the three events it names.\<close>

theorem propertyStatus_events_witness:
  \<open>on_message
     \<lparr>type = ''utf8'',
      utf8Data = Some ''{"id":"d1","data":{"a":1,"b":2},"messageType":"propertyStatus"}''\<rparr>
     (Some (JObj [(''id'', JStr ''d1''),
                  (''data'', JObj [(''a'', JNum (1::int)), (''b'', JNum 2)]),
                  (''messageType'', JStr ''propertyStatus'')])) =
     ([Emit ''message'' [Some (JStr ''d1''), Some (JObj [(''a'', JNum 1), (''b'', JNum 2)])],
       Emit ''propertyChanged'' [Some (JStr ''d1''), Some (JStr ''a''), Some (JNum 1)],
       Emit ''propertyChanged'' [Some (JStr ''d1''), Some (JStr ''b''), Some (JNum 2)]],
      Returned)\<close>
  using propertyStatus_events
    [of \<open>\<lparr>type = ''utf8'',
          utf8Data = Some ''{"id":"d1","data":{"a":1,"b":2},"messageType":"propertyStatus"}''\<rparr>\<close>
        _
        \<open>[(''id'', JStr ''d1''),
          (''data'', JObj [(''a'', JNum (1::int)), (''b'', JNum 2)]),
          (''messageType'', JStr ''propertyStatus'')]\<close>
        \<open>JStr ''d1''\<close>
        \<open>JObj [(''a'', JNum (1::int)), (''b'', JNum 2)]\<close>]
  by (simp add: keys_eval)

text \<open>
  The keys \<open>b\<close>, \<open>1\<close> arrive in this order; \<open>propertyChanged\<close> is emitted for \<open>1\<close> first.
\<close>

theorem propertyStatus_order_counterexample:
  \<open>fst (on_message
     \<lparr>type = ''utf8'',
      utf8Data = Some ''{"id":"d1","data":{"b":2,"1":1},"messageType":"propertyStatus"}''\<rparr>
     (Some (JObj [(''id'', JStr ''d1''),
                  (''data'', JObj [(''b'', JNum (2::int)), (''1'', JNum 1)]),
                  (''messageType'', JStr ''propertyStatus'')]))) =
     [Emit ''message'' [Some (JStr ''d1''), Some (JObj [(''b'', JNum 2), (''1'', JNum 1)])],
      Emit ''propertyChanged'' [Some (JStr ''d1''), Some (JStr ''1''), Some (JNum 1)],
      Emit ''propertyChanged'' [Some (JStr ''d1''), Some (JStr ''b''), Some (JNum 2)]]
   \<and> fst (on_message
     \<lparr>type = ''utf8'',
      utf8Data = Some ''{"id":"d1","data":{"b":2,"1":1},"messageType":"propertyStatus"}''\<rparr>
     (Some (JObj [(''id'', JStr ''d1''),
                  (''data'', JObj [(''b'', JNum (2::int)), (''1'', JNum 1)]),
                  (''messageType'', JStr ''propertyStatus'')]))) \<noteq>
     [Emit ''message'' [Some (JStr ''d1''), Some (JObj [(''b'', JNum 2), (''1'', JNum 1)])],
      Emit ''propertyChanged'' [Some (JStr ''d1''), Some (JStr ''b''), Some (JNum 2)],
      Emit ''propertyChanged'' [Some (JStr ''d1''), Some (JStr ''1''), Some (JNum 1)]]\<close>
  by (simp add: listener_eval keys_eval)

text \<open>
  C10.  For a non-empty text frame whose payload is a JSON object, the first thing the
  listener does is emit \<open>message(msg.id, msg.data)\<close>, whatever follows; an absent member is
  passed as \<open>undefined\<close>.
\<close>

theorem message_event_first:
  assumes "type message = ''utf8''" and "utf8Data message = Some text" and "text \<noteq> []"
  shows "(\<exists>rest c. on_message message (Some (JObj ms)) =
            (Emit ''message'' [member ms ''id'', member ms ''data''] # rest, c))
         \<and> (member ms ''id'' = None) = (''id'' \<notin> fst ` set ms)
         \<and> (member ms ''data'' = None) = (''data'' \<notin> fst ` set ms)"
  using assms
  by (simp add: on_message_text dispatch_def Let_def has_property_member)

text \<open>The empty object: no \<open>id\<close>, no \<open>data\<close>, no messageType.\<close>

theorem message_event_first_witness:
  \<open>on_message \<lparr>type = ''utf8'', utf8Data = Some ''{}''\<rparr> (Some (JObj [] :: int json)) =
     ([Emit ''message'' [None, None]], Returned)\<close>
proof -
  have \<open>\<exists>rest c. on_message \<lparr>type = ''utf8'', utf8Data = Some ''{}''\<rparr>
            (Some (JObj [] :: int json)) = (Emit ''message'' [None, None] # rest, c)\<close>
    using message_event_first [of \<open>\<lparr>type = ''utf8'', utf8Data = Some ''{}''\<rparr>\<close> \<open>''{}''\<close> \<open>[]\<close>]
    by (simp add: member_def)
  then show ?thesis
    by (simp add: listener_eval)
qed

text \<open>
  C4.  A frame that is not a text frame, or whose text is empty, is ignored: no event, no
  exception, and the frames after it are delivered as if it had not arrived.  A non-empty
  text frame on which \<open>JSON.parse\<close> fails raises no event either, but the SyntaxError
  leaves the listener.
\<close>

theorem ignored_frames:
  "(type message \<noteq> ''utf8'' \<or> utf8Data message = None \<or> utf8Data message = Some []
      \<longrightarrow> on_message message parsed = ([], Returned)
          \<and> deliver ((message, parsed) # later) = deliver later)
   \<and> (type message = ''utf8'' \<and> utf8Data message = Some text \<and> text \<noteq> []
      \<longrightarrow> on_message message (None :: 'n json option) = ([], Threw SyntaxError)
          \<and> deliver ((message, None) # later) = ([], Threw SyntaxError))"
  by (auto simp add: on_message_def truthy_def)

theorem ignored_frames_witness:
  \<open>deliver [(\<lparr>type = ''binary'', utf8Data = None\<rparr>, None),
            (\<lparr>type = ''utf8'', utf8Data = Some ''{}''\<rparr>, Some (JObj [] :: int json))] =
     ([Emit ''message'' [None, None]], Returned)
   \<and> deliver [(\<lparr>type = ''utf8'', utf8Data = Some ''{''\<rparr>, None),
              (\<lparr>type = ''utf8'', utf8Data = Some ''{}''\<rparr>, Some (JObj [] :: int json))] =
     ([], Threw SyntaxError)\<close>
  using ignored_frames
    [of \<open>\<lparr>type = ''binary'', utf8Data = None\<rparr>\<close> None
        \<open>[(\<lparr>type = ''utf8'', utf8Data = Some ''{}''\<rparr>, Some (JObj [] :: int json))]\<close>]
    ignored_frames
    [of \<open>\<lparr>type = ''utf8'', utf8Data = Some ''{''\<rparr>\<close> _
        \<open>[(\<lparr>type = ''utf8'', utf8Data = Some ''{}''\<rparr>, Some (JObj [] :: int json))]\<close>
        \<open>''{''\<close>]
  by (simp add: listener_eval member_def)

text \<open>The text frame \<open>{\<close> is not valid JSON; the exception of \<open>JSON.parse\<close> escapes.\<close>

theorem invalid_json_counterexample:
  \<open>on_message \<lparr>type = ''utf8'', utf8Data = Some ''{''\<rparr> (None :: int json option) =
     ([], Threw SyntaxError)\<close>
  by (simp add: on_message_def truthy_def)

text \<open>
  C9.  For a text frame whose document has \<open>data\<close> and no \<open>id\<close>: with messageType
  \<open>actionStatus\<close> and \<open>pair\<close> the one key of \<open>data\<close>, the listener emits \<open>message\<close> and then
  \<open>pair(data.pair)\<close>; with messageType \<open>actionStatus\<close> and any other keys (\<open>data\<close> not
  \<open>null\<close>) it emits \<open>message\<close> only and logs nothing; with any other messageType it emits
  \<open>message\<close> and logs the warning.
\<close>

theorem pair_events:
  assumes "type message = ''utf8''" and "utf8Data message = Some text" and "text \<noteq> []"
    and "member ms ''id'' = None"
    and "member ms ''data'' = Some d"
  shows "(member ms ''messageType'' = Some (JStr ''actionStatus'') \<and> enumerable_keys d = [''pair'']
            \<longrightarrow> on_message message (Some (JObj ms)) =
                  ([Emit ''message'' [None, Some d], Emit ''pair'' [get d ''pair'']], Returned))
       \<and> (member ms ''messageType'' = Some (JStr ''actionStatus'') \<and> d \<noteq> JNull
            \<and> enumerable_keys d \<noteq> [''pair'']
            \<longrightarrow> on_message message (Some (JObj ms)) = ([Emit ''message'' [None, Some d]], Returned))
       \<and> (member ms ''messageType'' \<noteq> Some (JStr ''actionStatus'')
            \<longrightarrow> on_message message (Some (JObj ms)) =
                  ([Emit ''message'' [None, Some d],
                    Warn None (member ms ''messageType'') (Some d)], Returned))"
proof -
  have keys: "enumerable_keys d = [''pair''] \<Longrightarrow> d \<noteq> JNull"
    by auto
  show ?thesis
    using assms keys
    by (simp add: on_message_text dispatch_gateway gateway_actionStatus gateway_other)
qed

text \<open>The pairing frame of the specification's example, and a frame of another type.\<close>

theorem pair_events_witness:
  \<open>on_message
     \<lparr>type = ''utf8'', utf8Data = Some ''{"data":{"pair":"xyz"},"messageType":"actionStatus"}''\<rparr>
     (Some (JObj [(''data'', JObj [(''pair'', JStr ''xyz'')]),
                  (''messageType'', JStr ''actionStatus'')] :: int json)) =
     ([Emit ''message'' [None, Some (JObj [(''pair'', JStr ''xyz'')])],
       Emit ''pair'' [Some (JStr ''xyz'')]], Returned)
   \<and> on_message
     \<lparr>type = ''utf8'', utf8Data = Some ''{"data":{"pair":"xyz"},"messageType":"ping"}''\<rparr>
     (Some (JObj [(''data'', JObj [(''pair'', JStr ''xyz'')]),
                  (''messageType'', JStr ''ping'')] :: int json)) =
     ([Emit ''message'' [None, Some (JObj [(''pair'', JStr ''xyz'')])],
       Warn None (Some (JStr ''ping'')) (Some (JObj [(''pair'', JStr ''xyz'')]))], Returned)\<close>
  using pair_events
    [of \<open>\<lparr>type = ''utf8'',
          utf8Data = Some ''{"data":{"pair":"xyz"},"messageType":"actionStatus"}''\<rparr>\<close>
        _
        \<open>[(''data'', JObj [(''pair'', JStr ''xyz'')]), (''messageType'', JStr ''actionStatus'')]\<close>
        \<open>JObj [(''pair'', JStr ''xyz'')] :: int json\<close>]
    pair_events
    [of \<open>\<lparr>type = ''utf8'',
          utf8Data = Some ''{"data":{"pair":"xyz"},"messageType":"ping"}''\<rparr>\<close>
        _
        \<open>[(''data'', JObj [(''pair'', JStr ''xyz'')]), (''messageType'', JStr ''ping'')]\<close>
        \<open>JObj [(''pair'', JStr ''xyz'')] :: int json\<close>]
  by (simp add: keys_eval)

text \<open>
  An \<open>actionStatus\<close> frame without \<open>id\<close> whose data is not the single key \<open>pair\<close>: the
  listener emits \<open>message\<close> and nothing else; no warning is logged.
\<close>

theorem unlogged_frame_counterexample:
  \<open>on_message
     \<lparr>type = ''utf8'', utf8Data = Some ''{"data":{"x":1},"messageType":"actionStatus"}''\<rparr>
     (Some (JObj [(''data'', JObj [(''x'', JNum (1::int))]),
                  (''messageType'', JStr ''actionStatus'')])) =
     ([Emit ''message'' [None, Some (JObj [(''x'', JNum 1)])]], Returned)\<close>
  by (simp add: listener_eval keys_eval)

section \<open>Facts about decimal numerals\<close>

lemma digit_val_digit: "d < 10 \<Longrightarrow> digit_val (digit d) = d"
proof -
  assume "d < 10"
  then have "d = 0 \<or> d = 1 \<or> d = 2 \<or> d = 3 \<or> d = 4 \<or> d = 5 \<or> d = 6 \<or> d = 7
      \<or> d = 8 \<or> d = 9"
    by (auto simp add: eval_nat_numeral less_Suc_eq)
  then show ?thesis
    by (elim disjE) (simp_all add: digit_val_def digit_def)
qed

lemma dec_val_snoc: "dec_val (s @ [c]) = 10 * dec_val s + digit_val c"
  by (simp add: dec_val_def)

lemma dec_val_dec: "dec_val (dec n) = n"
proof (induction n rule: dec.induct)
  case (1 n)
  show ?case
  proof (cases "n < 10")
    case True
    then show ?thesis
      by (simp add: dec.simps [of n] dec_val_def digit_val_digit)
  next
    case False
    then have "dec_val (dec (n div 10)) = n div 10"
      using "1.IH" by simp
    with False show ?thesis
      by (simp add: dec.simps [of n] dec_val_snoc digit_val_digit)
  qed
qed

section \<open>The request executor\<close>

text \<open>
  C2.  Whatever the method, path, body and flags: when the response's status is below 200
  or at least 300, \<open>request\<close> has made the one \<open>fetch\<close> call, rejects with the thrown
  string \<open>status: statusText\<close>, and has not read the body.  The decimal numeral in the string
  determines the status code.
\<close>

theorem status_outside_2xx:
  assumes "status response < 200 \<or> 300 \<le> status response"
  shows "request this m path b a (Responded response) =
           ([Fetch (request_url this path) (request_init this m b a)],
            Rejected (Thrown (dec (status response) @ '': '' @ statusText response)))
         \<and> ReadJson \<notin> set (fst (request this m path b a (Responded response)))
         \<and> dec_val (dec (status response)) = status response"
  using assms by (auto simp add: request_def status_message_def dec_val_dec)

text \<open>A \<open>PUT\<close> answered with \<open>404 Not Found\<close> and a JSON body.\<close>

theorem status_outside_2xx_witness:
  "request (new_client ''localhost'' 8080 ''tok'' False False) ''PUT'' ''/things/lamp''
     (Some (JBool True))
     no_args
     (Responded \<lparr>status = 404, statusText = ''Not Found'',
                 headers_get = [''Content-Type'' \<mapsto> ''application/json''],
                 json_body = Some (JObj [] :: int json)\<rparr>) =
     ([Fetch ''http://localhost:8080/things/lamp''
         \<lparr>agent = None, http_method = ''PUT'',
          headers = [(''Accept'', ''application/json''), (''Authorization'', ''Bearer tok''),
                     (''Content-Type'', ''application/json'')],
          body = Some (Stringify (Some (JBool True)))\<rparr>],
      Rejected (Thrown ''404: Not Found''))"
  using status_outside_2xx
    [of "\<lparr>status = 404, statusText = ''Not Found'',
                 headers_get = [''Content-Type'' \<mapsto> ''application/json''],
                 json_body = Some (JObj [] :: int json)\<rparr>"
        "new_client ''localhost'' 8080 ''tok'' False False" "''PUT''" "''/things/lamp''"
        "Some (JBool True)" no_args]
  by (simp add: request_url_def request_init_def new_client_def no_args_def dec.simps digit_def)

text \<open>
  C3.  \<open>delete\<close> answered with \<open>404 Not Found\<close>: the promise of \<open>request\<close> is rejected with
  \<open>404: Not Found\<close>, and the promise \<open>delete\<close> returned is fulfilled with \<open>undefined\<close>.
\<close>

theorem delete_swallows_failure:
  "delete_op (new_client ''localhost'' 8080 ''tok'' False False) ''/things/lamp''
     (Responded \<lparr>status = 404, statusText = ''Not Found'', headers_get = Map.empty,
                 json_body = (None :: int json option)\<rparr>) =
     ([Fetch ''http://localhost:8080/things/lamp''
         \<lparr>agent = None, http_method = ''DELETE'',
          headers = [(''Accept'', ''application/json''), (''Authorization'', ''Bearer tok''),
                     (''Content-Type'', ''application/json'')],
          body = Some (Template (Some (JStr [])))\<rparr>],
      Fulfilled None,
      Rejected (Thrown ''404: Not Found''))"
  by (simp add: delete_op_def request_def status_message_def request_url_def request_init_def
      new_client_def no_args_def dec.simps digit_def Let_def)

text \<open>\<open>get\<close>, \<open>put\<close> and \<open>post\<close> return the promise of \<open>request\<close> itself.\<close>

lemma verbs_propagate:
  "snd (get_op this path fetched) =
     snd (request this ''GET'' path None (no_args\<lparr>nobody := True\<rparr>) fetched)"
  "snd (put_op this path v fetched) = snd (request this ''PUT'' path v no_args fetched)"
  "snd (post_op this path v fetched) = snd (request this ''POST'' path v no_args fetched)"
  by (simp_all add: get_op_def put_op_def post_op_def)


section \<open>The socket\<close>

text \<open>
  C5.  \<open>connect\<close> dials exactly one socket, at
  \<open>webSocketProtocol://address:port/things?jwt=token\<close>, where the protocol (\<open>wss\<close> for an
  https client, \<open>ws\<close> otherwise), the address and the token are the client's, and the port
  is the argument of \<open>connect\<close>, 8080 when the call has none.
\<close>

theorem socket_address:
  "fst (snd (connect this port_arg answer)) =
     [SocketConnect
        (webSocketProtocol this @ ''://'' @ address this @ '':''
           @ dec (case port_arg of None \<Rightarrow> 8080 | Some q \<Rightarrow> q)
           @ ''/things?jwt='' @ token this)
        (webSocketClientConfig this)]
   \<and> webSocketProtocol (new_client a p t useHttps skipValidation) =
       (if useHttps then ''wss'' else ''ws'')
   \<and> address (new_client a p t useHttps skipValidation) = a
   \<and> token (new_client a p t useHttps skipValidation) = t"
  by (cases answer) (simp_all add: connect_def socket_url_def new_client_def)

text \<open>An https client that passes its own port to \<open>connect\<close>.\<close>

theorem socket_address_witness:
  "fst (snd (connect (new_client ''gateway.local'' 4443 ''tok'' True True) (Some 4443)
               (OnConnect \<lparr>connected = True\<rparr>))) =
     [SocketConnect ''wss://gateway.local:4443/things?jwt=tok''
        (Some \<lparr>rejectUnauthorized = False\<rparr>) :: int call]"
  using socket_address
    [of "new_client ''gateway.local'' 4443 ''tok'' True True" "Some 4443"
        "OnConnect \<lparr>connected = True\<rparr>"]
  by (simp add: new_client_def dec.simps digit_def)

text \<open>
  A client that \<open>local\<close> resolved to port 4443 and that calls \<open>connect()\<close> dials port 8080.
\<close>

theorem socket_port_counterexample:
  "local ''tok''
     (Responded \<lparr>status = 301, statusText = ''Moved Permanently'',
                 headers_get = [''Location'' \<mapsto> ''https://localhost:4443/''],
                 json_body = (None :: int json option)\<rparr>) =
     (''http://localhost:8080'', Fulfilled (new_client ''localhost'' 4443 ''tok'' True True))
   \<and> port (new_client ''localhost'' 4443 ''tok'' True True) = 4443
   \<and> connect (new_client ''localhost'' 4443 ''tok'' True True) None
       (OnConnect \<lparr>connected = True\<rparr>) =
     ((new_client ''localhost'' 4443 ''tok'' True True)
        \<lparr>connection := Some \<lparr>connected = True\<rparr>\<rparr>,
      [SocketConnect ''wss://localhost:8080/things?jwt=tok''
         (Some \<lparr>rejectUnauthorized = False\<rparr>) :: int call],
      Fulfilled ())"
  by (simp add: local_def truthy_def connect_def socket_url_def new_client_def dec.simps
      digit_def Let_def)

text \<open>The event descriptions sent, when no event name is repeated or an array index.\<close>

lemma member_distinct:
  "distinct (map fst ms) \<Longrightarrow> (k, v) \<in> set ms \<Longrightarrow> member ms k = Some v"
  by (simp add: member_def rev_map [symmetric])

lemma descriptions_of_listed:
  assumes "distinct (map fst events)" and "set xs \<subseteq> set events"
  shows "concat (map (\<lambda>eventName. case member events eventName of
                                     None \<Rightarrow> []
                                   | Some e \<Rightarrow> [(eventName, description e)])
                  (map fst xs)) =
         map (\<lambda>(name, e). (name, description e)) xs"
  using assms(2)
proof (induction xs)
  case Nil
  then show ?case by simp
next
  case (Cons x xs)
  obtain name e where x: "x = (name, e)"
    by (cases x)
  with Cons.prems have "member events name = Some e"
    using assms(1) by (simp add: member_distinct)
  with Cons x show ?case
    by simp
qed

lemma event_descriptions_as_listed:
  assumes "distinct (map fst events)"
    and "list_all (\<lambda>k. \<not> is_array_index k) (map fst events)"
  shows "event_descriptions events = map (\<lambda>(name, e). (name, description e)) events"
proof -
  have "own_keys events = map fst events"
    using assms by (rule own_keys_as_listed)
  then show ?thesis
    unfolding event_descriptions_def
    using descriptions_of_listed [OF assms(1) subset_refl]
    by (simp only:)
qed

text \<open>
  Only a successful \<open>connect\<close> sets the \<open>connection\<close> field, and \<open>disconnect\<close> never
  clears it.
\<close>

lemma connection_kept:
  "connection (fst (connect this port_arg (OnConnect c)
                 :: WebThingsClient \<times> 'n call list \<times> unit settled)) = Some c"
  "connection (fst (connect this port_arg (OnConnectFailed e)
                 :: WebThingsClient \<times> 'n call list \<times> unit settled)) = connection this"
  "(connection (fst (disconnect this :: WebThingsClient \<times> 'n call list \<times> unit settled)) = None)
     = (connection this = None)"
  by (simp_all add: connect_def disconnect_def split: option.split)

text \<open>
  C6.  \<open>subscribeEvents\<close> on a client that holds no connection rejects with
  \<open>Error('Socket not connected!')\<close> and writes nothing; on a client that holds a connection
  it sends the document \<open>{messageType: 'addEventSubscription', id, data}\<close>, where \<open>data\<close>
  maps each event name to the event's description.
\<close>

theorem subscribe_by_connection:
  "(connection this = None \<longrightarrow>
      subscribeEvents this device events = ([], Rejected (Error ''Socket not connected!'')))
   \<and> (connection this = Some c \<longrightarrow>
      subscribeEvents this device events =
        ([SocketSend (JObj [(''messageType'', JStr ''addEventSubscription''),
                            (''id'', JStr (device_id device)),
                            (''data'', JObj (event_descriptions events))])],
         Fulfilled ()))
   \<and> (distinct (map fst events) \<and> list_all (\<lambda>k. \<not> is_array_index k) (map fst events) \<longrightarrow>
        event_descriptions events = map (\<lambda>(name, e). (name, description e)) events)"
  by (simp add: subscribeEvents_def subscription_def event_descriptions_as_listed)

text \<open>A fresh client, and the same client holding an open connection.\<close>

theorem subscribe_by_connection_witness:
  "subscribeEvents (new_client ''localhost'' 8080 ''tok'' False False)
     \<lparr>device_id = ''lamp''\<rparr> [(''overheated'', \<lparr>description = JObj [] :: int json\<rparr>)] =
     ([], Rejected (Error ''Socket not connected!''))
   \<and> subscribeEvents
       ((new_client ''localhost'' 8080 ''tok'' False False)
          \<lparr>connection := Some \<lparr>connected = True\<rparr>\<rparr>)
       \<lparr>device_id = ''lamp''\<rparr> [(''overheated'', \<lparr>description = JObj [] :: int json\<rparr>)] =
     ([SocketSend (JObj [(''messageType'', JStr ''addEventSubscription''),
                         (''id'', JStr ''lamp''),
                         (''data'', JObj [(''overheated'', JObj [])])])],
      Fulfilled ())"
  using subscribe_by_connection
    [of "new_client ''localhost'' 8080 ''tok'' False False"
        "\<lparr>device_id = ''lamp''\<rparr>" "[(''overheated'', \<lparr>description = JObj [] :: int json\<rparr>)]"]
    subscribe_by_connection
    [of "(new_client ''localhost'' 8080 ''tok'' False False)
          \<lparr>connection := Some \<lparr>connected = True\<rparr>\<rparr>"
        "\<lparr>device_id = ''lamp''\<rparr>" "[(''overheated'', \<lparr>description = JObj [] :: int json\<rparr>)]"
        "\<lparr>connected = True\<rparr>"]
  by (simp add: new_client_def keys_eval)

text \<open>
  After \<open>connect\<close> and \<open>disconnect\<close> the client still holds its connection, now closed;
  \<open>subscribeEvents\<close> does not reject and hands the document to the closed connection.
\<close>

theorem closed_connection_counterexample:
  "fst (disconnect (fst (connect (new_client ''localhost'' 8080 ''tok'' False False) None
                      (OnConnect \<lparr>connected = True\<rparr>)
                    :: WebThingsClient \<times> int call list \<times> unit settled))
        :: WebThingsClient \<times> int call list \<times> unit settled) =
     (new_client ''localhost'' 8080 ''tok'' False False)
       \<lparr>connection := Some \<lparr>connected = False\<rparr>\<rparr>
   \<and> subscribeEvents
       ((new_client ''localhost'' 8080 ''tok'' False False)
          \<lparr>connection := Some \<lparr>connected = False\<rparr>\<rparr>)
       \<lparr>device_id = ''lamp''\<rparr> [(''overheated'', \<lparr>description = JObj [] :: int json\<rparr>)] =
     ([SocketSend (JObj [(''messageType'', JStr ''addEventSubscription''),
                         (''id'', JStr ''lamp''),
                         (''data'', JObj [(''overheated'', JObj [])])])],
      Fulfilled ())"
  by (simp add: connect_def disconnect_def close_def subscribeEvents_def subscription_def
      event_descriptions_def new_client_def keys_eval Let_def)

section \<open>The resolver\<close>

text \<open>
  C7.  \<open>local(token)\<close> probes \<open>http://localhost:8080\<close>.  The response is the one \<open>fetch\<close>
  resolves with, and \<open>headers_get\<close> is its \<open>headers.get\<close>.  When \<open>headers.get('Location')\<close>
  is a non-empty string the client uses https and wss on port 4443 with
  \<open>rejectUnauthorized: false\<close> for both channels; when it is \<open>null\<close> or the empty string the
  client uses http and ws on port 8080 with no TLS option set.  The token is the caller's in
  both cases.
\<close>

theorem local_descriptor:
  "fst (local tok (Responded response)) = ''http://localhost:8080''
   \<and> (headers_get response ''Location'' = Some v \<and> v \<noteq> [] \<longrightarrow>
        snd (local tok (Responded response)) =
          Fulfilled \<lparr>address = ''localhost'', port = 4443, token = tok, protocol = ''https'',
                     webSocketProtocol = ''wss'',
                     fetchOptions = Some \<lparr>rejectUnauthorized = False\<rparr>,
                     webSocketClientConfig = Some \<lparr>rejectUnauthorized = False\<rparr>,
                     connection = None\<rparr>)
   \<and> (headers_get response ''Location'' = None \<or> headers_get response ''Location'' = Some [] \<longrightarrow>
        snd (local tok (Responded response)) =
          Fulfilled \<lparr>address = ''localhost'', port = 8080, token = tok, protocol = ''http'',
                     webSocketProtocol = ''ws'', fetchOptions = None,
                     webSocketClientConfig = None, connection = None\<rparr>)"
  by (auto simp add: local_def truthy_def new_client_def dec.simps digit_def Let_def)

text \<open>A redirecting probe response, and one without \<open>Location\<close>.\<close>

theorem local_descriptor_witness:
  "snd (local ''tok''
     (Responded \<lparr>status = 301, statusText = ''Moved Permanently'',
                 headers_get = [''Location'' \<mapsto> ''https://localhost:4443/''],
                 json_body = (None :: int json option)\<rparr>)) =
     Fulfilled \<lparr>address = ''localhost'', port = 4443, token = ''tok'', protocol = ''https'',
                webSocketProtocol = ''wss'',
                fetchOptions = Some \<lparr>rejectUnauthorized = False\<rparr>,
                webSocketClientConfig = Some \<lparr>rejectUnauthorized = False\<rparr>,
                connection = None\<rparr>
   \<and> snd (local ''tok''
     (Responded \<lparr>status = 200, statusText = ''OK'', headers_get = Map.empty,
                 json_body = (None :: int json option)\<rparr>)) =
     Fulfilled \<lparr>address = ''localhost'', port = 8080, token = ''tok'', protocol = ''http'',
                webSocketProtocol = ''ws'', fetchOptions = None,
                webSocketClientConfig = None, connection = None\<rparr>"
  using local_descriptor
    [of "''tok''" "\<lparr>status = 301, statusText = ''Moved Permanently'',
                 headers_get = [''Location'' \<mapsto> ''https://localhost:4443/''],
                 json_body = (None :: int json option)\<rparr>" "''https://localhost:4443/''"]
    local_descriptor
    [of "''tok''" "\<lparr>status = 200, statusText = ''OK'', headers_get = Map.empty,
                 json_body = (None :: int json option)\<rparr>"]
  by simp

text \<open>
  A probe answered with \<open>200 OK\<close> and a \<open>Location\<close> header whose value is empty: the header
  is present, and the client is the plaintext one.
\<close>

theorem empty_location_counterexample:
  "local ''tok''
     (Responded \<lparr>status = 200, statusText = ''OK'',
                 headers_get = [''Location'' \<mapsto> []],
                 json_body = (None :: int json option)\<rparr>) =
     (''http://localhost:8080'',
      Fulfilled \<lparr>address = ''localhost'', port = 8080, token = ''tok'', protocol = ''http'',
                 webSocketProtocol = ''ws'', fetchOptions = None,
                 webSocketClientConfig = None, connection = None\<rparr>)"
  by (simp add: local_def truthy_def new_client_def dec.simps digit_def Let_def)

section \<open>The headers of a request\<close>

text \<open>Whatever the answer, the first call of \<open>request\<close> is its \<open>fetch\<close>.\<close>

lemma request_first_call:
  "\<exists>rest. fst (request this m path b a fetched) =
     Fetch (request_url this path) (request_init this m b a) # rest"
  by (cases fetched) (simp_all add: request_def Let_def split: option.split)

text \<open>
  C8.  The first call of \<open>request\<close> is the \<open>fetch\<close> of \<open>request_init\<close>, which always has
  \<open>Accept: application/json\<close> and \<open>Authorization: Bearer token\<close>.  With \<open>nobody\<close> it has no
  \<open>Content-Type\<close> and no body.  Without \<open>nobody\<close> it has \<open>Content-Type: application/json\<close>,
  whether \<open>strbody\<close> is set or not, and the body is the template literal of the value when
  \<open>strbody\<close> is set and its \<open>JSON.stringify\<close> otherwise.  So the request of \<open>get\<close> has the
  two headers and no body; the requests of \<open>put\<close> and \<open>post\<close> have the three headers and the
  \<open>JSON.stringify\<close> of the value; the request of \<open>delete\<close> has the three headers and the
  template literal of the empty string.
\<close>

theorem request_headers:
  "(\<exists>rest. fst (request this m path b a fetched) =
             Fetch (request_url this path) (request_init this m b a) # rest)
   \<and> http_method (request_init this m b a) = m
   \<and> map_of (headers (request_init this m b a)) ''Accept'' = Some ''application/json''
   \<and> map_of (headers (request_init this m b a)) ''Authorization'' =
       Some (''Bearer '' @ token this)
   \<and> (nobody a \<longrightarrow>
        map_of (headers (request_init this m b a)) ''Content-Type'' = None
        \<and> body (request_init this m b a) = None)
   \<and> (\<not> nobody a \<longrightarrow>
        map_of (headers (request_init this m b a)) ''Content-Type'' = Some ''application/json''
        \<and> body (request_init this m b a) = Some (if strbody a then Template b else Stringify b))
   \<and> (\<exists>rest. fst (get_op this path fetched) =
         Fetch (request_url this path)
           \<lparr>agent = fetchOptions this, http_method = ''GET'',
            headers = [(''Accept'', ''application/json''),
                       (''Authorization'', ''Bearer '' @ token this)],
            body = None\<rparr> # rest)
   \<and> (\<exists>rest. fst (put_op this path b fetched) =
         Fetch (request_url this path)
           \<lparr>agent = fetchOptions this, http_method = ''PUT'',
            headers = [(''Accept'', ''application/json''),
                       (''Authorization'', ''Bearer '' @ token this),
                       (''Content-Type'', ''application/json'')],
            body = Some (Stringify b)\<rparr> # rest)
   \<and> (\<exists>rest. fst (post_op this path b fetched) =
         Fetch (request_url this path)
           \<lparr>agent = fetchOptions this, http_method = ''POST'',
            headers = [(''Accept'', ''application/json''),
                       (''Authorization'', ''Bearer '' @ token this),
                       (''Content-Type'', ''application/json'')],
            body = Some (Stringify b)\<rparr> # rest)
   \<and> (\<exists>rest. fst (delete_op this path fetched) =
         Fetch (request_url this path)
           \<lparr>agent = fetchOptions this, http_method = ''DELETE'',
            headers = [(''Accept'', ''application/json''),
                       (''Authorization'', ''Bearer '' @ token this),
                       (''Content-Type'', ''application/json'')],
            body = Some (Template (Some (JStr [])))\<rparr> # rest)"
proof -
  have general: "\<exists>rest. fst (request this m path b a fetched) =
          Fetch (request_url this path) (request_init this m b a) # rest"
    by (rule request_first_call)
  have get: "\<exists>rest. fst (get_op this path fetched) =
         Fetch (request_url this path)
           \<lparr>agent = fetchOptions this, http_method = ''GET'',
            headers = [(''Accept'', ''application/json''),
                       (''Authorization'', ''Bearer '' @ token this)],
            body = None\<rparr> # rest"
    using request_first_call [of this "''GET''" path None "no_args\<lparr>nobody := True\<rparr>" fetched]
    by (simp add: get_op_def request_init_def no_args_def)
  have put: "\<exists>rest. fst (put_op this path b fetched) =
         Fetch (request_url this path)
           \<lparr>agent = fetchOptions this, http_method = ''PUT'',
            headers = [(''Accept'', ''application/json''),
                       (''Authorization'', ''Bearer '' @ token this),
                       (''Content-Type'', ''application/json'')],
            body = Some (Stringify b)\<rparr> # rest"
    using request_first_call [of this "''PUT''" path b no_args fetched]
    by (simp add: put_op_def request_init_def no_args_def)
  have post: "\<exists>rest. fst (post_op this path b fetched) =
         Fetch (request_url this path)
           \<lparr>agent = fetchOptions this, http_method = ''POST'',
            headers = [(''Accept'', ''application/json''),
                       (''Authorization'', ''Bearer '' @ token this),
                       (''Content-Type'', ''application/json'')],
            body = Some (Stringify b)\<rparr> # rest"
    using request_first_call [of this "''POST''" path b no_args fetched]
    by (simp add: post_op_def request_init_def no_args_def)
  have delete: "\<exists>rest. fst (delete_op this path fetched) =
         Fetch (request_url this path)
           \<lparr>agent = fetchOptions this, http_method = ''DELETE'',
            headers = [(''Accept'', ''application/json''),
                       (''Authorization'', ''Bearer '' @ token this),
                       (''Content-Type'', ''application/json'')],
            body = Some (Template (Some (JStr [])))\<rparr> # rest"
    using request_first_call [of this "''DELETE''" path "Some (JStr [])"
        "no_args\<lparr>strbody := True, expectnocontent := True\<rparr>" fetched]
    by (simp add: delete_op_def request_init_def no_args_def Let_def)
  have init: "http_method (request_init this m b a) = m
   \<and> map_of (headers (request_init this m b a)) ''Accept'' = Some ''application/json''
   \<and> map_of (headers (request_init this m b a)) ''Authorization'' =
       Some (''Bearer '' @ token this)
   \<and> (nobody a \<longrightarrow>
        map_of (headers (request_init this m b a)) ''Content-Type'' = None
        \<and> body (request_init this m b a) = None)
   \<and> (\<not> nobody a \<longrightarrow>
        map_of (headers (request_init this m b a)) ''Content-Type'' = Some ''application/json''
        \<and> body (request_init this m b a) = Some (if strbody a then Template b else Stringify b))"
    by (simp add: request_init_def Let_def)
  from general init get put post delete show ?thesis
    by blast
qed

text \<open>
  The requests of \<open>get\<close> on \<open>/things\<close> and of \<open>put\<close> with the value \<open>true\<close>, both answered
  with \<open>200 OK\<close>.
\<close>

theorem request_headers_witness:
  "hd (fst (get_op (new_client ''localhost'' 8080 ''tok'' False False) ''/things''
              (Responded \<lparr>status = 200, statusText = ''OK'',
                          headers_get = [''Content-Type'' \<mapsto> ''application/json''],
                          json_body = Some (JArr [] :: int json)\<rparr>))) =
     Fetch ''http://localhost:8080/things''
       \<lparr>agent = None, http_method = ''GET'',
        headers = [(''Accept'', ''application/json''), (''Authorization'', ''Bearer tok'')],
        body = None\<rparr>
   \<and> hd (fst (put_op (new_client ''localhost'' 8080 ''tok'' False False) ''/things/lamp''
                (Some (JBool True))
                (Responded \<lparr>status = 200, statusText = ''OK'',
                            headers_get = [''Content-Type'' \<mapsto> ''application/json''],
                            json_body = Some (JArr [] :: int json)\<rparr>))) =
     Fetch ''http://localhost:8080/things/lamp''
       \<lparr>agent = None, http_method = ''PUT'',
        headers = [(''Accept'', ''application/json''), (''Authorization'', ''Bearer tok''),
                   (''Content-Type'', ''application/json'')],
        body = Some (Stringify (Some (JBool True)))\<rparr>
   \<and> map_of (headers (request_init (new_client ''localhost'' 8080 ''tok'' False False) ''GET''
                        (None :: int jsval) (no_args\<lparr>nobody := True\<rparr>))) ''Content-Type'' = None
   \<and> map_of (headers (request_init (new_client ''localhost'' 8080 ''tok'' False False) ''PUT''
                        (Some (JBool True :: int json)) no_args)) ''Content-Type'' =
       Some ''application/json''"
  using request_headers
    [of "new_client ''localhost'' 8080 ''tok'' False False" "''GET''" "''/things''"
        "None :: int jsval" "no_args\<lparr>nobody := True\<rparr>"
        "Responded \<lparr>status = 200, statusText = ''OK'',
                          headers_get = [''Content-Type'' \<mapsto> ''application/json''],
                          json_body = Some (JArr [] :: int json)\<rparr>"]
    request_headers
    [of "new_client ''localhost'' 8080 ''tok'' False False" "''PUT''" "''/things/lamp''"
        "Some (JBool True :: int json)" no_args
        "Responded \<lparr>status = 200, statusText = ''OK'',
                          headers_get = [''Content-Type'' \<mapsto> ''application/json''],
                          json_body = Some (JArr [] :: int json)\<rparr>"]
  by (auto simp add: request_url_def new_client_def no_args_def dec.simps digit_def)

text \<open>
  The request of \<open>delete\<close>: its body is the raw empty string and its content type is
  \<open>application/json\<close>, the same headers as without \<open>strbody\<close>.
\<close>

theorem raw_body_content_type_counterexample:
  "fst (delete_op (new_client ''localhost'' 8080 ''tok'' False False) ''/things/lamp''
          (NetworkFailure :: int fetched)) =
     [Fetch ''http://localhost:8080/things/lamp''
        \<lparr>agent = None, http_method = ''DELETE'',
         headers = [(''Accept'', ''application/json''), (''Authorization'', ''Bearer tok''),
                    (''Content-Type'', ''application/json'')],
         body = Some (Template (Some (JStr [])))\<rparr>]
   \<and> headers (request_init (new_client ''localhost'' 8080 ''tok'' False False) ''DELETE''
               (Some (JStr []) :: int jsval) (no_args\<lparr>strbody := True, expectnocontent := True\<rparr>)) =
     headers (request_init (new_client ''localhost'' 8080 ''tok'' False False) ''DELETE''
               (Some (JStr []) :: int jsval) (no_args\<lparr>expectnocontent := True\<rparr>))"
  by (simp add: delete_op_def request_def request_url_def request_init_def
      new_client_def no_args_def dec.simps digit_def Let_def)

end
